theory Spec2Isabelle
  imports Complex_Main
begin

section \<open>Data model of the quote service\<close>

text \<open>
  The development embeds \<^verbatim>\<open>backend/app/services/quote_service.py\<close> together with the
  tables of \<^verbatim>\<open>backend/app/models/quote.py\<close> and the request schemas of
  \<^verbatim>\<open>backend/app/schemas/quote.py\<close>.

  Conventions of the embedding:
  \<^item> A Python \<^verbatim>\<open>Decimal\<close> is a rational number. The service only adds, multiplies and
    divides by 1000, which the decimal context computes exactly while the result has at
    most 28 significant digits; the scale of the numeric columns is a matter of the
    persistence layer and is not part of the model.
  \<^item> A UUID is a natural number. \<^verbatim>\<open>uuid.uuid4\<close> is a counter kept in the database
    state: every allocation returns a value that was never returned before.
  \<^item> Strings are byte strings (UTF-8); the Chinese literals of the source are written as
    their bytes.
  \<^item> An exception is a value of type \<open>error\<close>; every public method runs in a transaction
    that is rolled back when its body raises.
  \<^item> A method returns what the properties below speak of: the item, the new identifier or
    nothing. The detail response that some methods build after their commit is not
    modelled.
  \<^item> The descriptive columns that no price depends on (region name, modality, capability,
    model type, context spec, billing unit, currency, the timestamps and the identifier of a
    version row) are left out.
\<close>

type_synonym uuid = nat
type_synonym decimal = rat

text \<open>A field of a patch request: \<^verbatim>\<open>model_dump(exclude_unset=True)\<close> keeps exactly the
  fields the caller has set, also those set to \<^verbatim>\<open>None\<close>.\<close>

datatype 'a upd = Unset | SetTo 'a

record quote_sheet =
  quote_id :: uuid
  quote_no :: string
  customer_name :: string
  project_name :: "string option"
  created_by :: string
  sales_name :: "string option"
  customer_contact :: "string option"
  customer_email :: "string option"
  status :: string
  remarks :: "string option"
  terms :: "string option"
  global_discount_rate :: decimal
  global_discount_remark :: "string option"
  total_amount :: decimal
  total_original_amount :: decimal

record quote_item =
  item_id :: uuid
  item_quote_id :: uuid
  product_code :: string
  product_name :: string
  region :: string
  input_tokens :: "int option"
  output_tokens :: "int option"
  inference_mode :: "string option"
  quantity :: int
  duration_months :: int
  original_price :: decimal
  discount_rate :: decimal
  final_price :: decimal
  sort_order :: int

record item_snapshot =
  snap_product_code :: string
  snap_product_name :: string
  snap_quantity :: int
  snap_original_price :: decimal
  snap_final_price :: decimal

record quote_snapshot =
  snap_quote_no :: string
  snap_customer_name :: string
  snap_project_name :: "string option"
  snap_status :: string
  snap_total_amount :: decimal
  snap_global_discount_rate :: decimal
  snap_items :: "item_snapshot list"

text \<open>The change summaries are Chinese sentences, two of them with the item count
  formatted in; they are kept as a structured value.\<close>

datatype summary =
    SumCreate | SumUpdate | SumAddItem nat | SumUpdateItem | SumDeleteItem nat
  | SumApplyDiscount | SumRecalculate | SumClone | SumUnknown

record quote_version =
  version_quote_id :: uuid
  version_number :: int
  change_type :: string
  changes_summary :: summary
  snapshot_data :: quote_snapshot

text \<open>The catalogue rows the service reads (\<^verbatim>\<open>Product\<close>, \<^verbatim>\<open>ProductPrice\<close>). Their table
  declarations are not among the sources; the fields are the ones the service reads, with
  \<^verbatim>\<open>pricing_variables\<close> a JSON object of numbers.\<close>

record product =
  prod_code :: string
  prod_name :: string
  category :: string

record product_price =
  price_product_code :: string
  price_region :: string
  unit_price :: decimal
  pricing_variables :: "(string \<times> decimal) list option"

text \<open>\<^verbatim>\<open>QuoteItemCreateRequest\<close>, \<^verbatim>\<open>QuoteItemUpdateRequest\<close>, \<^verbatim>\<open>QuoteCreateRequest\<close> and
  \<^verbatim>\<open>QuoteUpdateRequest\<close>.\<close>

record item_create =
  req_product_code :: string
  req_region :: string
  req_quantity :: int
  req_input_tokens :: "int option"
  req_output_tokens :: "int option"
  req_inference_mode :: "string option"
  req_duration_months :: int

record item_update =
  upd_quantity :: "int option upd"
  upd_input_tokens :: "int option upd"
  upd_output_tokens :: "int option upd"
  upd_inference_mode :: "string option upd"
  upd_discount_rate :: "decimal option upd"

record quote_create =
  new_customer_name :: string
  new_project_name :: "string option"
  new_created_by :: string
  new_sales_name :: "string option"
  new_customer_contact :: "string option"
  new_customer_email :: "string option"
  new_remarks :: "string option"

record quote_update =
  upd_customer_name :: "string option upd"
  upd_project_name :: "string option upd"
  upd_sales_name :: "string option upd"
  upd_customer_contact :: "string option upd"
  upd_customer_email :: "string option upd"
  upd_remarks :: "string option upd"
  upd_terms :: "string option upd"
  upd_status :: "string option upd"

record db =
  quotes :: "quote_sheet list"
  items :: "quote_item list"
  versions :: "quote_version list"
  products :: "product list"
  prices :: "product_price list"
  next_uuid :: nat

text \<open>The exceptions of the service. All but the last three are \<^verbatim>\<open>ValueError\<close>s told apart
  by their message; \<open>InvalidState\<close> is the message "only a draft quote can ..." of the
  operation named.\<close>

datatype draft_only = AddingItems | ChangingItems | DeletingItems | ApplyingDiscount | EditingInfo

datatype error =
    QuoteNotFound uuid
  | InvalidState draft_only
  | ProductNotFound string
  | PriceNotFound string string
  | ItemNotFound uuid
  | TransitionFromDraft "string option"
  | TransitionNotAllowed string
  | QuoteNoExhausted
  | AttributeError
  | IntegrityError
  | RequestValidationError

section \<open>Price of one item\<close>

fun is_prefix :: "'a list \<Rightarrow> 'a list \<Rightarrow> bool" where
  "is_prefix [] ys = True"
| "is_prefix (x # xs) [] = False"
| "is_prefix (x # xs) (y # ys) = (x = y \<and> is_prefix xs ys)"

text \<open>Python's \<^verbatim>\<open>needle in haystack\<close> on strings.\<close>

fun py_in :: "'a list \<Rightarrow> 'a list \<Rightarrow> bool" where
  "py_in xs [] = (xs = [])"
| "py_in xs (y # ys) = (is_prefix xs (y # ys) \<or> py_in xs ys)"

text \<open>The three characters of the category marker for large models, as UTF-8 bytes.\<close>

definition llm_marker :: string where
  "llm_marker = [CHR 0xE5, CHR 0xA4, CHR 0xA7, CHR 0xE6, CHR 0xA8, CHR 0xA1, CHR 0xE5, CHR 0x9E, CHR 0x8B]"

definition product_type :: "product \<Rightarrow> string" where
  "product_type p = (if py_in llm_marker (category p) then ''llm'' else ''standard'')"

text \<open>\<^verbatim>\<open>d.get(key, default)\<close> on a JSON object, and \<^verbatim>\<open>d or {}\<close>.\<close>

definition dict_get :: "(string \<times> decimal) list \<Rightarrow> string \<Rightarrow> decimal \<Rightarrow> decimal" where
  "dict_get d k dflt = (case map_of d k of None \<Rightarrow> dflt | Some v \<Rightarrow> v)"

definition or_empty :: "(string \<times> decimal) list option \<Rightarrow> (string \<times> decimal) list" where
  "or_empty d = (case d of None \<Rightarrow> [] | Some kv \<Rightarrow> kv)"

record price_result =
  res_original_price :: decimal
  res_final_price :: decimal

text \<open>\<^verbatim>\<open>_calculate_item_price\<close>. The token formula is taken only when the product is a large
  model and both token counts are truthy, that is, given and not zero.\<close>

definition token_cost :: "product_price \<Rightarrow> int \<Rightarrow> int \<Rightarrow> string option \<Rightarrow> decimal" where
  "token_cost price itok otok mode =
     (let pricing_vars = or_empty (pricing_variables price);
          input_price = dict_get pricing_vars ''input_price'' 0;
          output_price = dict_get pricing_vars ''output_price'' 0;
          base_cost = (input_price * of_int itok + output_price * of_int otok) / 1000
      in if mode = Some ''thinking''
         then base_cost * dict_get pricing_vars ''thinking_multiplier'' (3 / 2)
         else base_cost)"

definition calculate_item_price :: "product \<Rightarrow> product_price \<Rightarrow> item_create \<Rightarrow> decimal \<Rightarrow> price_result" where
  "calculate_item_price prd price item_data rate =
     (let base_price = unit_price price;
          standard = base_price * of_int (req_quantity item_data) * of_int (req_duration_months item_data);
          original =
            (case (req_input_tokens item_data, req_output_tokens item_data) of
               (Some itok, Some otok) \<Rightarrow>
                 if product_type prd = ''llm'' \<and> itok \<noteq> 0 \<and> otok \<noteq> 0
                 then token_cost price itok otok (req_inference_mode item_data)
                        * of_int (req_quantity item_data) * of_int (req_duration_months item_data)
                 else standard
             | _ \<Rightarrow> standard)
      in \<lparr>res_original_price = original, res_final_price = original * rate\<rparr>)"

section \<open>Queries and the helpers of the service\<close>

text \<open>\<^verbatim>\<open>select(...).where(...)\<close> followed by \<^verbatim>\<open>.scalars().first()\<close> or \<^verbatim>\<open>.all()\<close>.\<close>

definition get_quote :: "db \<Rightarrow> uuid \<Rightarrow> quote_sheet option" where
  "get_quote d qid = find (\<lambda>q. quote_id q = qid) (quotes d)"

definition quote_items :: "db \<Rightarrow> uuid \<Rightarrow> quote_item list" where
  "quote_items d qid = filter (\<lambda>i. item_quote_id i = qid) (items d)"

definition get_item :: "db \<Rightarrow> uuid \<Rightarrow> uuid \<Rightarrow> quote_item option" where
  "get_item d qid iid = find (\<lambda>i. item_id i = iid \<and> item_quote_id i = qid) (items d)"

definition get_product :: "db \<Rightarrow> string \<Rightarrow> product option" where
  "get_product d code = find (\<lambda>p. prod_code p = code) (products d)"

definition get_price :: "db \<Rightarrow> string \<Rightarrow> string \<Rightarrow> product_price option" where
  "get_price d code reg = find (\<lambda>p. price_product_code p = code \<and> price_region p = reg) (prices d)"

definition quote_versions :: "db \<Rightarrow> uuid \<Rightarrow> quote_version list" where
  "quote_versions d qid = filter (\<lambda>v. version_quote_id v = qid) (versions d)"

text \<open>\<^verbatim>\<open>func.max\<close> is NULL over no rows, and \<^verbatim>\<open>scalar() or 0\<close> turns NULL (and 0) into 0.\<close>

fun sql_max :: "int list \<Rightarrow> int option" where
  "sql_max [] = None"
| "sql_max (x # xs) = (case sql_max xs of None \<Rightarrow> Some x | Some m \<Rightarrow> Some (max x m))"

definition or_zero :: "int option \<Rightarrow> int" where
  "or_zero m = (case m of None \<Rightarrow> 0 | Some v \<Rightarrow> if v = 0 then 0 else v)"

definition max_sort_order :: "db \<Rightarrow> uuid \<Rightarrow> int" where
  "max_sort_order d qid = or_zero (sql_max (map sort_order (quote_items d qid)))"

definition max_version :: "db \<Rightarrow> uuid \<Rightarrow> int" where
  "max_version d qid = or_zero (sql_max (map version_number (quote_versions d qid)))"

text \<open>An attribute assignment on the row a query returned first, and the deletion of
  that row.\<close>

fun update_first :: "('a \<Rightarrow> bool) \<Rightarrow> ('a \<Rightarrow> 'a) \<Rightarrow> 'a list \<Rightarrow> 'a list" where
  "update_first P f [] = []"
| "update_first P f (x # xs) = (if P x then f x # xs else x # update_first P f xs)"

fun delete_first :: "('a \<Rightarrow> bool) \<Rightarrow> 'a list \<Rightarrow> 'a list" where
  "delete_first P [] = []"
| "delete_first P (x # xs) = (if P x then xs else x # delete_first P xs)"

text \<open>\<^verbatim>\<open>_recalculate_total\<close>: a full resum over the items of the quote.\<close>

definition recalculate_total :: "db \<Rightarrow> uuid \<Rightarrow> db" where
  "recalculate_total d qid =
     (let its = quote_items d qid;
          total_original = sum_list (map original_price its);
          total_final = sum_list (map final_price its)
      in d\<lparr>quotes := update_first (\<lambda>q. quote_id q = qid)
             (\<lambda>q. q\<lparr>total_original_amount := total_original, total_amount := total_final\<rparr>)
             (quotes d)\<rparr>)"

text \<open>\<^verbatim>\<open>_generate_changes_summary\<close> and \<^verbatim>\<open>_create_version_snapshot\<close>. The latter reads
  attributes of the quote, so it raises when the quote is absent.\<close>

definition generate_changes_summary :: "string \<Rightarrow> nat \<Rightarrow> summary" where
  "generate_changes_summary ct items_count =
     (if ct = ''create'' then SumCreate
      else if ct = ''update'' then SumUpdate
      else if ct = ''add_item'' then SumAddItem items_count
      else if ct = ''update_item'' then SumUpdateItem
      else if ct = ''delete_item'' then SumDeleteItem items_count
      else if ct = ''apply_discount'' then SumApplyDiscount
      else if ct = ''recalculate'' then SumRecalculate
      else if ct = ''clone'' then SumClone
      else SumUnknown)"

definition item_snapshot_of :: "quote_item \<Rightarrow> item_snapshot" where
  "item_snapshot_of i =
     \<lparr>snap_product_code = product_code i, snap_product_name = product_name i,
      snap_quantity = quantity i, snap_original_price = original_price i,
      snap_final_price = final_price i\<rparr>"

definition snapshot_of :: "quote_sheet \<Rightarrow> quote_item list \<Rightarrow> quote_snapshot" where
  "snapshot_of q its =
     \<lparr>snap_quote_no = quote_no q, snap_customer_name = customer_name q,
      snap_project_name = project_name q, snap_status = status q,
      snap_total_amount = total_amount q,
      snap_global_discount_rate = global_discount_rate q,
      snap_items = map item_snapshot_of its\<rparr>"

definition create_version_snapshot :: "db \<Rightarrow> uuid \<Rightarrow> string \<Rightarrow> error + db" where
  "create_version_snapshot d qid ct =
     (let max_v = max_version d qid in
      case get_quote d qid of
        None \<Rightarrow> Inl AttributeError
      | Some q \<Rightarrow>
          let its = quote_items d qid;
              version = \<lparr>version_quote_id = qid, version_number = max_v + 1,
                         change_type = ct,
                         changes_summary = generate_changes_summary ct (length its),
                         snapshot_data = snapshot_of q its\<rparr>
          in Inr (d\<lparr>versions := versions d @ [version]\<rparr>))"

text \<open>\<^verbatim>\<open>generate_quote_no\<close>. The date and the Redis counter are outside the service:
  \<open>cands\<close> are the numbers that successive increments of the counter give. At most three
  are tried, and the first that no quote carries is taken.\<close>

definition generate_quote_no :: "db \<Rightarrow> string list \<Rightarrow> error + string" where
  "generate_quote_no d cands =
     (case filter (\<lambda>c. find (\<lambda>q. quote_no q = c) (quotes d) = None) (take 3 cands) of
        [] \<Rightarrow> Inl QuoteNoExhausted
      | c # _ \<Rightarrow> Inr c)"

text \<open>The \<^verbatim>\<open>try ... except: rollback; raise\<close> around every method body: an exception
  leaves the database as it was, a normal return commits the new state.\<close>

definition transaction :: "db \<Rightarrow> error + 'a \<times> db \<Rightarrow> (error + 'a) \<times> db" where
  "transaction d r = (case r of Inl e \<Rightarrow> (Inl e, d) | Inr (x, d') \<Rightarrow> (Inr x, d'))"

text \<open>The tail of every mutating method: write the snapshot, then return.\<close>

definition snapshot_and_return :: "db \<Rightarrow> uuid \<Rightarrow> string \<Rightarrow> 'a \<Rightarrow> error + 'a \<times> db" where
  "snapshot_and_return d qid ct x =
     (case create_version_snapshot d qid ct of Inl e \<Rightarrow> Inl e | Inr d' \<Rightarrow> Inr (x, d'))"

section \<open>The methods of the service\<close>

subsection \<open>Quotes\<close>

definition draft_sheet :: "uuid \<Rightarrow> string \<Rightarrow> quote_create \<Rightarrow> quote_sheet" where
  "draft_sheet qid qno data =
     \<lparr>quote_id = qid, quote_no = qno,
      customer_name = new_customer_name data,
      project_name = new_project_name data,
      created_by = new_created_by data,
      sales_name = new_sales_name data,
      customer_contact = new_customer_contact data,
      customer_email = new_customer_email data,
      status = ''draft'', remarks = new_remarks data, terms = None,
      global_discount_rate = 1, global_discount_remark = None,
      total_amount = 0, total_original_amount = 0\<rparr>"

definition create_quote_tx :: "db \<Rightarrow> quote_create \<Rightarrow> string list \<Rightarrow> error + uuid \<times> db" where
  "create_quote_tx d data cands =
     (case generate_quote_no d cands of
        Inl e \<Rightarrow> Inl e
      | Inr qno \<Rightarrow>
          let qid = next_uuid d;
              quote = draft_sheet qid qno data;
              d1 = d\<lparr>quotes := quotes d @ [quote], next_uuid := Suc (next_uuid d)\<rparr>
          in snapshot_and_return d1 qid ''create'' qid)"

definition create_quote :: "db \<Rightarrow> quote_create \<Rightarrow> string list \<Rightarrow> (error + uuid) \<times> db" where
  "create_quote d data cands = transaction d (create_quote_tx d data cands)"

text \<open>\<^verbatim>\<open>update_quote\<close>. \<^verbatim>\<open>data.status is None\<close> holds for a status left unset and for one set
  to null; \<^verbatim>\<open>"status" in update_data\<close> holds for every status that was set. A null customer
  name violates the column's NOT NULL.\<close>

definition set_field :: "'a upd \<Rightarrow> 'a \<Rightarrow> 'a" where
  "set_field u old = (case u of Unset \<Rightarrow> old | SetTo v \<Rightarrow> v)"

definition apply_quote_patch :: "quote_update \<Rightarrow> quote_sheet \<Rightarrow> error + quote_sheet" where
  "apply_quote_patch u q =
     (if upd_customer_name u = SetTo None \<or> upd_status u = SetTo None then Inl IntegrityError
      else Inr (q\<lparr>customer_name := (case upd_customer_name u of SetTo (Some n) \<Rightarrow> n | _ \<Rightarrow> customer_name q),
                  project_name := set_field (upd_project_name u) (project_name q),
                  sales_name := set_field (upd_sales_name u) (sales_name q),
                  customer_contact := set_field (upd_customer_contact u) (customer_contact q),
                  customer_email := set_field (upd_customer_email u) (customer_email q),
                  remarks := set_field (upd_remarks u) (remarks q),
                  terms := set_field (upd_terms u) (terms q),
                  status := (case upd_status u of SetTo (Some s) \<Rightarrow> s | _ \<Rightarrow> status q)\<rparr>))"

definition status_transition :: "quote_sheet \<Rightarrow> quote_update \<Rightarrow> error option" where
  "status_transition q u =
     (case upd_status u of
        Unset \<Rightarrow> None
      | SetTo new_status \<Rightarrow>
          if status q = ''draft''
          then (if new_status = Some ''confirmed'' \<or> new_status = Some ''cancelled'' then None
                else Some (TransitionFromDraft new_status))
          else Some (TransitionNotAllowed (status q)))"

definition update_quote_tx :: "db \<Rightarrow> uuid \<Rightarrow> quote_update \<Rightarrow> error + unit \<times> db" where
  "update_quote_tx d qid data =
     (case get_quote d qid of
        None \<Rightarrow> Inl (QuoteNotFound qid)
      | Some q \<Rightarrow>
          if status q \<noteq> ''draft'' \<and> (upd_status data = Unset \<or> upd_status data = SetTo None)
          then Inl (InvalidState EditingInfo)
          else (case status_transition q data of
            Some e \<Rightarrow> Inl e
          | None \<Rightarrow>
             (case apply_quote_patch data q of
                Inl e \<Rightarrow> Inl e
              | Inr q' \<Rightarrow>
                  snapshot_and_return
                    (d\<lparr>quotes := update_first (\<lambda>x. quote_id x = qid) (\<lambda>_. q') (quotes d)\<rparr>)
                    qid ''update'' ())))"

definition update_quote :: "db \<Rightarrow> uuid \<Rightarrow> quote_update \<Rightarrow> (error + unit) \<times> db" where
  "update_quote d qid data = transaction d (update_quote_tx d qid data)"

text \<open>\<^verbatim>\<open>delete_quote\<close>: the soft delete. It sets the status and commits.\<close>

definition delete_quote_tx :: "db \<Rightarrow> uuid \<Rightarrow> error + bool \<times> db" where
  "delete_quote_tx d qid =
     (case get_quote d qid of
        None \<Rightarrow> Inl (QuoteNotFound qid)
      | Some q \<Rightarrow>
          Inr (True, d\<lparr>quotes := update_first (\<lambda>x. quote_id x = qid)
                                  (\<lambda>x. x\<lparr>status := ''deleted''\<rparr>) (quotes d)\<rparr>))"

definition delete_quote :: "db \<Rightarrow> uuid \<Rightarrow> (error + bool) \<times> db" where
  "delete_quote d qid = transaction d (delete_quote_tx d qid)"

subsection \<open>Items\<close>

definition new_item :: "uuid \<Rightarrow> uuid \<Rightarrow> product \<Rightarrow> item_create \<Rightarrow> price_result \<Rightarrow> int \<Rightarrow> quote_item" where
  "new_item iid qid prd item_data pr so =
     \<lparr>item_id = iid, item_quote_id = qid,
      product_code = req_product_code item_data, product_name = prod_name prd,
      region = req_region item_data,
      input_tokens = req_input_tokens item_data, output_tokens = req_output_tokens item_data,
      inference_mode = req_inference_mode item_data,
      quantity = req_quantity item_data, duration_months = req_duration_months item_data,
      original_price = res_original_price pr, discount_rate = 1,
      final_price = res_final_price pr, sort_order = so\<rparr>"

definition insert_item :: "db \<Rightarrow> quote_item \<Rightarrow> db" where
  "insert_item d i = d\<lparr>items := items d @ [i], next_uuid := Suc (next_uuid d)\<rparr>"

definition add_item_tx :: "db \<Rightarrow> uuid \<Rightarrow> item_create \<Rightarrow> error + quote_item \<times> db" where
  "add_item_tx d qid item_data =
     (case get_quote d qid of
        None \<Rightarrow> Inl (QuoteNotFound qid)
      | Some q \<Rightarrow>
          if status q \<noteq> ''draft'' then Inl (InvalidState AddingItems)
          else (case get_product d (req_product_code item_data) of
            None \<Rightarrow> Inl (ProductNotFound (req_product_code item_data))
          | Some prd \<Rightarrow>
             (case get_price d (req_product_code item_data) (req_region item_data) of
                None \<Rightarrow> Inl (PriceNotFound (req_product_code item_data) (req_region item_data))
              | Some price \<Rightarrow>
                  let pr = calculate_item_price prd price item_data (global_discount_rate q);
                      max_sort = max_sort_order d qid;
                      item = new_item (next_uuid d) qid prd item_data pr (max_sort + 1);
                      d1 = insert_item d item;
                      d2 = recalculate_total d1 qid
                  in snapshot_and_return d2 qid ''add_item'' item)))"

definition add_item :: "db \<Rightarrow> uuid \<Rightarrow> item_create \<Rightarrow> (error + quote_item) \<times> db" where
  "add_item d qid item_data = transaction d (add_item_tx d qid item_data)"

text \<open>\<^verbatim>\<open>update_item\<close>. The patch is written to the item field by field; a null quantity or
  discount rate violates NOT NULL. When the patch names a price field and the catalogue
  still has the product and its price, a \<^verbatim>\<open>QuoteItemCreateRequest\<close> is built from the item,
  which validates it, and the price is computed again.\<close>

definition apply_item_patch :: "item_update \<Rightarrow> quote_item \<Rightarrow> error + quote_item" where
  "apply_item_patch u i =
     (if upd_quantity u = SetTo None \<or> upd_discount_rate u = SetTo None then Inl IntegrityError
      else Inr (i\<lparr>quantity := (case upd_quantity u of SetTo (Some n) \<Rightarrow> n | _ \<Rightarrow> quantity i),
                  input_tokens := set_field (upd_input_tokens u) (input_tokens i),
                  output_tokens := set_field (upd_output_tokens u) (output_tokens i),
                  inference_mode := set_field (upd_inference_mode u) (inference_mode i),
                  discount_rate := (case upd_discount_rate u of SetTo (Some r) \<Rightarrow> r | _ \<Rightarrow> discount_rate i)\<rparr>))"

definition touches_price :: "item_update \<Rightarrow> bool" where
  "touches_price u =
     (upd_input_tokens u \<noteq> Unset \<or> upd_output_tokens u \<noteq> Unset \<or> upd_quantity u \<noteq> Unset
      \<or> upd_inference_mode u \<noteq> Unset)"

definition valid_item_create :: "item_create \<Rightarrow> bool" where
  "valid_item_create r =
     (req_quantity r \<ge> 1
      \<and> (case req_input_tokens r of None \<Rightarrow> True | Some n \<Rightarrow> n \<ge> 0)
      \<and> (case req_output_tokens r of None \<Rightarrow> True | Some n \<Rightarrow> n \<ge> 0)
      \<and> (case req_inference_mode r of None \<Rightarrow> True
          | Some m \<Rightarrow> m = ''thinking'' \<or> m = ''non_thinking'')
      \<and> req_duration_months r \<ge> 1)"

definition calc_data_of :: "quote_item \<Rightarrow> item_create" where
  "calc_data_of i =
     \<lparr>req_product_code = product_code i, req_region = region i, req_quantity = quantity i,
      req_input_tokens = input_tokens i, req_output_tokens = output_tokens i,
      req_inference_mode = inference_mode i, req_duration_months = duration_months i\<rparr>"

definition reprice :: "db \<Rightarrow> quote_sheet \<Rightarrow> quote_item \<Rightarrow> error + quote_item" where
  "reprice d q i =
     (case get_price d (product_code i) (region i) of
        None \<Rightarrow> Inr i
      | Some price \<Rightarrow>
         (case get_product d (product_code i) of
            None \<Rightarrow> Inr i
          | Some prd \<Rightarrow>
              if \<not> valid_item_create (calc_data_of i) then Inl RequestValidationError
              else let pr = calculate_item_price prd price (calc_data_of i) (global_discount_rate q)
                   in Inr (i\<lparr>original_price := res_original_price pr,
                              final_price := res_final_price pr\<rparr>)))"

definition update_item_tx :: "db \<Rightarrow> uuid \<Rightarrow> uuid \<Rightarrow> item_update \<Rightarrow> error + quote_item \<times> db" where
  "update_item_tx d qid iid item_data =
     (case get_quote d qid of
        None \<Rightarrow> Inl (QuoteNotFound qid)
      | Some q \<Rightarrow>
          if status q \<noteq> ''draft'' then Inl (InvalidState ChangingItems)
          else (case get_item d qid iid of
            None \<Rightarrow> Inl (ItemNotFound iid)
          | Some item \<Rightarrow>
             (case apply_item_patch item_data item of
                Inl e \<Rightarrow> Inl e
              | Inr item1 \<Rightarrow>
                 (case (if touches_price item_data then reprice d q item1 else Inr item1) of
                    Inl e \<Rightarrow> Inl e
                  | Inr item2 \<Rightarrow>
                      let d1 = d\<lparr>items := update_first (\<lambda>i. item_id i = iid \<and> item_quote_id i = qid)
                                               (\<lambda>_. item2) (items d)\<rparr>;
                          d2 = recalculate_total d1 qid
                      in snapshot_and_return d2 qid ''update_item'' item2))))"

definition update_item :: "db \<Rightarrow> uuid \<Rightarrow> uuid \<Rightarrow> item_update \<Rightarrow> (error + quote_item) \<times> db" where
  "update_item d qid iid item_data = transaction d (update_item_tx d qid iid item_data)"

definition delete_item_tx :: "db \<Rightarrow> uuid \<Rightarrow> uuid \<Rightarrow> error + bool \<times> db" where
  "delete_item_tx d qid iid =
     (case get_quote d qid of
        None \<Rightarrow> Inl (QuoteNotFound qid)
      | Some q \<Rightarrow>
          if status q \<noteq> ''draft'' then Inl (InvalidState DeletingItems)
          else (case get_item d qid iid of
            None \<Rightarrow> Inl (ItemNotFound iid)
          | Some item \<Rightarrow>
              let d1 = d\<lparr>items := delete_first (\<lambda>i. item_id i = iid \<and> item_quote_id i = qid) (items d)\<rparr>;
                  d2 = recalculate_total d1 qid
              in snapshot_and_return d2 qid ''delete_item'' True))"

definition delete_item :: "db \<Rightarrow> uuid \<Rightarrow> uuid \<Rightarrow> (error + bool) \<times> db" where
  "delete_item d qid iid = transaction d (delete_item_tx d qid iid)"

text \<open>\<^verbatim>\<open>add_items_batch\<close>. The loop carries the database, the running sort order and the
  two result lists; an item whose product or price is missing is recorded as failed and
  skipped.\<close>

record batch_result =
  success_items :: "quote_item list"
  failed_items :: "(string \<times> error) list"

fun batch_loop ::
  "uuid \<Rightarrow> decimal \<Rightarrow> item_create list \<Rightarrow> db \<times> int \<times> batch_result \<Rightarrow> db \<times> int \<times> batch_result" where
  "batch_loop qid rate [] st = st"
| "batch_loop qid rate (item_data # rest) (d, current_sort, res) =
     (case get_product d (req_product_code item_data) of
        None \<Rightarrow>
          batch_loop qid rate rest
            (d, current_sort,
             res\<lparr>failed_items := failed_items res @
                [(req_product_code item_data, ProductNotFound (req_product_code item_data))]\<rparr>)
      | Some prd \<Rightarrow>
         (case get_price d (req_product_code item_data) (req_region item_data) of
            None \<Rightarrow>
              batch_loop qid rate rest
                (d, current_sort,
                 res\<lparr>failed_items := failed_items res @
                    [(req_product_code item_data,
                      PriceNotFound (req_product_code item_data) (req_region item_data))]\<rparr>)
          | Some price \<Rightarrow>
              let pr = calculate_item_price prd price item_data rate;
                  item = new_item (next_uuid d) qid prd item_data pr (current_sort + 1)
              in batch_loop qid rate rest
                   (insert_item d item, current_sort + 1,
                    res\<lparr>success_items := success_items res @ [item]\<rparr>)))"

definition add_items_batch_tx :: "db \<Rightarrow> uuid \<Rightarrow> item_create list \<Rightarrow> error + batch_result \<times> db" where
  "add_items_batch_tx d qid items_data =
     (case get_quote d qid of
        None \<Rightarrow> Inl (QuoteNotFound qid)
      | Some q \<Rightarrow>
          if status q \<noteq> ''draft'' then Inl (InvalidState AddingItems)
          else (case batch_loop qid (global_discount_rate q) items_data
                       (d, max_sort_order d qid, \<lparr>success_items = [], failed_items = []\<rparr>) of
                  (d1, _, res) \<Rightarrow>
                    snapshot_and_return (recalculate_total d1 qid) qid ''add_item'' res))"

definition add_items_batch :: "db \<Rightarrow> uuid \<Rightarrow> item_create list \<Rightarrow> (error + batch_result) \<times> db" where
  "add_items_batch d qid items_data = transaction d (add_items_batch_tx d qid items_data)"

subsection \<open>Cloning and the global discount\<close>

text \<open>Python's \<^verbatim>\<open>a or b\<close> on optional strings: \<^verbatim>\<open>None\<close> and the empty string are falsy.\<close>

definition truthy :: "string option \<Rightarrow> bool" where
  "truthy a = (case a of None \<Rightarrow> False | Some s \<Rightarrow> s \<noteq> [])"

definition py_or :: "string option \<Rightarrow> string \<Rightarrow> string" where
  "py_or a b = (case a of None \<Rightarrow> b | Some s \<Rightarrow> if s = [] then b else s)"

definition clone_prefix :: string where
  "clone_prefix = [CHR 0xE5, CHR 0x85, CHR 0x8B, CHR 0xE9, CHR 0x9A, CHR 0x86,
                   CHR 0xE8, CHR 0x87, CHR 0xAA, CHR 0x20]"

text \<open>The items of the source, in the order of \<^verbatim>\<open>get_quote_detail\<close>, are copied under new
  identifiers and numbered from 1.\<close>

fun clone_items :: "uuid \<Rightarrow> uuid \<Rightarrow> int \<Rightarrow> quote_item list \<Rightarrow> quote_item list" where
  "clone_items nq nid idx [] = []"
| "clone_items nq nid idx (i # rest) =
     i\<lparr>item_id := nid, item_quote_id := nq, sort_order := idx\<rparr>
       # clone_items nq (Suc nid) (idx + 1) rest"

definition cloned_sheet ::
  "uuid \<Rightarrow> string \<Rightarrow> quote_sheet \<Rightarrow> string option \<Rightarrow> string option \<Rightarrow> quote_sheet" where
  "cloned_sheet nq qno src cust proj =
     \<lparr>quote_id = nq, quote_no = qno,
      customer_name = py_or cust (customer_name src),
      project_name = (if truthy proj then proj else project_name src),
      created_by = created_by src, sales_name = sales_name src,
      customer_contact = customer_contact src,
      customer_email = customer_email src,
      status = ''draft'', remarks = Some (clone_prefix @ quote_no src),
      terms = None,
      global_discount_rate = global_discount_rate src,
      global_discount_remark = None,
      total_amount = 0, total_original_amount = 0\<rparr>"

definition clone_quote_tx ::
  "db \<Rightarrow> uuid \<Rightarrow> string option \<Rightarrow> string option \<Rightarrow> string list \<Rightarrow> error + uuid \<times> db" where
  "clone_quote_tx d qid cust proj cands =
     (case get_quote d qid of
        None \<Rightarrow> Inl (QuoteNotFound qid)
      | Some src \<Rightarrow>
         (case generate_quote_no d cands of
            Inl e \<Rightarrow> Inl e
          | Inr qno \<Rightarrow>
              let src_items = sort_key sort_order (quote_items d qid);
                  nq = next_uuid d;
                  new_quote = cloned_sheet nq qno src cust proj;
                  d1 = d\<lparr>quotes := quotes d @ [new_quote],
                         items := items d @ clone_items nq (Suc nq) 1 src_items,
                         next_uuid := Suc nq + length src_items\<rparr>;
                  d2 = recalculate_total d1 nq
              in snapshot_and_return d2 nq ''clone'' nq))"

definition clone_quote ::
  "db \<Rightarrow> uuid \<Rightarrow> string option \<Rightarrow> string option \<Rightarrow> string list \<Rightarrow> (error + uuid) \<times> db" where
  "clone_quote d qid cust proj cands = transaction d (clone_quote_tx d qid cust proj cands)"

text \<open>\<^verbatim>\<open>apply_global_discount\<close>. The rate is stored as given: the method has no check of
  its range.\<close>

definition set_global_discount :: "db \<Rightarrow> uuid \<Rightarrow> decimal \<Rightarrow> string option \<Rightarrow> db" where
  "set_global_discount d qid rate remark =
     d\<lparr>quotes := update_first (\<lambda>x. quote_id x = qid)
                   (\<lambda>x. x\<lparr>global_discount_rate := rate,
                           global_discount_remark :=
                             (if truthy remark then remark else global_discount_remark x)\<rparr>)
                   (quotes d),
       items := map (\<lambda>i. if item_quote_id i = qid
                          then i\<lparr>final_price := original_price i * rate\<rparr> else i)
                    (items d)\<rparr>"

definition apply_global_discount_tx ::
  "db \<Rightarrow> uuid \<Rightarrow> decimal \<Rightarrow> string option \<Rightarrow> error + unit \<times> db" where
  "apply_global_discount_tx d qid rate remark =
     (case get_quote d qid of
        None \<Rightarrow> Inl (QuoteNotFound qid)
      | Some q \<Rightarrow>
          if status q \<noteq> ''draft'' then Inl (InvalidState ApplyingDiscount)
          else
            let d1 = set_global_discount d qid rate remark;
                d2 = recalculate_total d1 qid
            in snapshot_and_return d2 qid ''apply_discount'' ())"

definition apply_global_discount ::
  "db \<Rightarrow> uuid \<Rightarrow> decimal \<Rightarrow> string option \<Rightarrow> (error + unit) \<times> db" where
  "apply_global_discount d qid rate remark = transaction d (apply_global_discount_tx d qid rate remark)"


section \<open>The service as a whole\<close>

text \<open>One call of a public method that writes, and its effect on the database. A call that
  raises leaves the database as it was.\<close>

datatype op =
    CreateQuote quote_create "string list"
  | UpdateQuote uuid quote_update
  | DeleteQuote uuid
  | AddItem uuid item_create
  | UpdateItem uuid uuid item_update
  | DeleteItem uuid uuid
  | AddItemsBatch uuid "item_create list"
  | CloneQuote uuid "string option" "string option" "string list"
  | ApplyGlobalDiscount uuid decimal "string option"

definition outcome :: "(error + 'a) \<times> db \<Rightarrow> error option \<times> db" where
  "outcome r = (case r of (Inl e, d) \<Rightarrow> (Some e, d) | (Inr _, d) \<Rightarrow> (None, d))"

fun exec :: "db \<Rightarrow> op \<Rightarrow> error option \<times> db" where
  "exec d (CreateQuote data cands) = outcome (create_quote d data cands)"
| "exec d (UpdateQuote qid data) = outcome (update_quote d qid data)"
| "exec d (DeleteQuote qid) = outcome (delete_quote d qid)"
| "exec d (AddItem qid item_data) = outcome (add_item d qid item_data)"
| "exec d (UpdateItem qid iid item_data) = outcome (update_item d qid iid item_data)"
| "exec d (DeleteItem qid iid) = outcome (delete_item d qid iid)"
| "exec d (AddItemsBatch qid items_data) = outcome (add_items_batch d qid items_data)"
| "exec d (CloneQuote qid cust proj cands) = outcome (clone_quote d qid cust proj cands)"
| "exec d (ApplyGlobalDiscount qid rate remark) = outcome (apply_global_discount d qid rate remark)"

text \<open>The quote a call writes to: the one it names, or the one it creates.\<close>

fun target :: "db \<Rightarrow> op \<Rightarrow> uuid" where
  "target d (CreateQuote data cands) = next_uuid d"
| "target d (UpdateQuote qid data) = qid"
| "target d (DeleteQuote qid) = qid"
| "target d (AddItem qid item_data) = qid"
| "target d (UpdateItem qid iid item_data) = qid"
| "target d (DeleteItem qid iid) = qid"
| "target d (AddItemsBatch qid items_data) = qid"
| "target d (CloneQuote qid cust proj cands) = next_uuid d"
| "target d (ApplyGlobalDiscount qid rate remark) = qid"

fun exec_all :: "db \<Rightarrow> op list \<Rightarrow> db" where
  "exec_all d [] = d"
| "exec_all d (x # xs) = exec_all (snd (exec d x)) xs"

definition empty_db :: "product list \<Rightarrow> product_price list \<Rightarrow> db" where
  "empty_db ps prs = \<lparr>quotes = [], items = [], versions = [], products = ps, prices = prs, next_uuid = 0\<rparr>"

section \<open>Invariants and predicates\<close>



fun soft_delete :: "op \<Rightarrow> bool" where
  "soft_delete (DeleteQuote qid) = True"
| "soft_delete _ = False"

text \<open>The rate of every quote by its identifier; an item is priced when its final price is
  its original price times the rate of its quote. The invariant of the service: every item
  is priced, and every identifier in use was given out by the counter.\<close>

definition rates :: "db \<Rightarrow> (uuid \<times> decimal) list" where
  "rates d = map (\<lambda>q. (quote_id q, global_discount_rate q)) (quotes d)"




text \<open>The version numbers of every quote are 1, 2, 3, ... in the order they were written.\<close>

definition ledger_ok :: "db \<Rightarrow> bool" where
  "ledger_ok d =
     (\<forall>qid. map version_number (quote_versions d qid)
              = map int [1..<Suc (length (quote_versions d qid))])"

section \<open>Example data\<close>

text \<open>A large-model product priced at 0.04 per thousand input tokens and 0.12 per
  thousand output tokens, with a thinking multiplier of 1.5 and a unit price of 0.04.\<close>

definition example_llm :: product where
  "example_llm = \<lparr>prod_code = ''qwen-max'', prod_name = ''Qwen Max'', category = ''AI-'' @ llm_marker\<rparr>"

definition example_price :: product_price where
  "example_price =
     \<lparr>price_product_code = ''qwen-max'', price_region = ''cn-beijing'', unit_price = 1 / 25,
      pricing_variables =
        Some [(''input_price'', 1 / 25), (''output_price'', 3 / 25), (''thinking_multiplier'', 3 / 2)]\<rparr>"

definition example_item :: "int option \<Rightarrow> int option \<Rightarrow> string option \<Rightarrow> item_create" where
  "example_item itok otok mode =
     \<lparr>req_product_code = ''qwen-max'', req_region = ''cn-beijing'', req_quantity = 1,
      req_input_tokens = itok, req_output_tokens = otok, req_inference_mode = mode,
      req_duration_months = 1\<rparr>"

text \<open>A database that holds one quote of the given status, without items.\<close>

definition example_quote :: "string \<Rightarrow> quote_sheet" where
  "example_quote st =
     \<lparr>quote_id = 0, quote_no = ''QT202401010001'', customer_name = ''ACME'', project_name = None,
      created_by = ''sales'', sales_name = None, customer_contact = None, customer_email = None,
      status = st, remarks = None, terms = None, global_discount_rate = 1,
      global_discount_remark = None, total_amount = 0, total_original_amount = 0\<rparr>"

definition example_db :: "string \<Rightarrow> db" where
  "example_db st =
     \<lparr>quotes = [example_quote st], items = [], versions = [], products = [example_llm],
      prices = [example_price], next_uuid = 1\<rparr>"

text \<open>The request that creates such a quote.\<close>

definition example_create :: quote_create where
  "example_create =
     \<lparr>new_customer_name = ''ACME'', new_project_name = None, new_created_by = ''sales'',
      new_sales_name = None, new_customer_contact = None, new_customer_email = None,
      new_remarks = None\<rparr>"

text \<open>The empty database after the creation of one quote; and after that quote got a
  global discount of 0.9 and then an item.\<close>

definition created_db :: db where
  "created_db = exec_all (empty_db [example_llm] [example_price])
                  [CreateQuote example_create [''QT202401010001'']]"




section \<open>Evaluation of the examples\<close>



section \<open>Lists and rows\<close>

lemma find_update_first:
  "(\<And>x. P x \<Longrightarrow> P (f x)) \<Longrightarrow> find P (update_first P f xs) = map_option f (find P xs)"
  by (induction xs) auto

lemma find_update_first_other:
  "(\<And>x. Q (f x) = Q x) \<Longrightarrow> (\<And>x. Q x \<Longrightarrow> \<not> P x) \<Longrightarrow> find Q (update_first P f xs) = find Q xs"
  by (induction xs) auto

lemma recalculate_total_fields [simp]:
  "items (recalculate_total d qid) = items d"
  "versions (recalculate_total d qid) = versions d"
  "next_uuid (recalculate_total d qid) = next_uuid d"
  "products (recalculate_total d qid) = products d"
  "prices (recalculate_total d qid) = prices d"
  by (simp_all add: recalculate_total_def Let_def)

lemma quote_items_recalculate_total [simp]:
  "quote_items (recalculate_total d qid) q = quote_items d q"
  by (simp add: quote_items_def)

lemma get_quote_recalculate_total:
  "get_quote (recalculate_total d qid) qid =
     map_option (\<lambda>q. q\<lparr>total_original_amount := sum_list (map original_price (quote_items d qid)),
                        total_amount := sum_list (map final_price (quote_items d qid))\<rparr>)
       (get_quote d qid)"
  by (simp add: get_quote_def recalculate_total_def Let_def find_update_first)

lemma create_version_snapshot_Inr:
  assumes "create_version_snapshot d qid ct = Inr d'"
  shows "\<exists>v. d' = d\<lparr>versions := versions d @ [v]\<rparr> \<and> version_quote_id v = qid
             \<and> version_number v = max_version d qid + 1"
    and "get_quote d qid \<noteq> None"
  using assms by (auto simp: create_version_snapshot_def Let_def split: option.splits)

lemma snapshot_and_return_Inr:
  assumes "snapshot_and_return d qid ct x = Inr (y, d')"
  shows "y = x"
    and "\<exists>v. d' = d\<lparr>versions := versions d @ [v]\<rparr> \<and> version_quote_id v = qid
             \<and> version_number v = max_version d qid + 1"
    and "get_quote d qid \<noteq> None"
  using assms create_version_snapshot_Inr[of d qid ct]
  by (auto simp: snapshot_and_return_def split: sum.splits)

lemma get_quote_versions_upd [simp]: "get_quote (d\<lparr>versions := vs\<rparr>) q = get_quote d q"
  by (simp add: get_quote_def)

lemma quote_items_versions_upd [simp]: "quote_items (d\<lparr>versions := vs\<rparr>) q = quote_items d q"
  by (simp add: quote_items_def)

lemma outcome_None: "outcome r = (None, d') \<Longrightarrow> \<exists>x. r = (Inr x, d')"
  by (auto simp: outcome_def split: prod.splits sum.splits)

section \<open>Totals\<close>










section \<open>Mutations need a draft\<close>

text \<open>
  C2. On a quote whose status is not draft, \<^verbatim>\<open>add_item\<close>, \<^verbatim>\<open>update_item\<close>, \<^verbatim>\<open>delete_item\<close>,
  \<^verbatim>\<open>add_items_batch\<close> and \<^verbatim>\<open>apply_global_discount\<close> each fail with the invalid-state error,
  and the database, hence the quote and its items, is as it was.
\<close>

theorem draft_only_mutations:
  assumes "get_quote d qid = Some q" and "status q \<noteq> ''draft''"
  shows "add_item d qid item_data = (Inl (InvalidState AddingItems), d)
       \<and> update_item d qid iid patch = (Inl (InvalidState ChangingItems), d)
       \<and> delete_item d qid iid = (Inl (InvalidState DeletingItems), d)
       \<and> add_items_batch d qid items_data = (Inl (InvalidState AddingItems), d)
       \<and> apply_global_discount d qid rate remark = (Inl (InvalidState ApplyingDiscount), d)"
  using assms
  by (simp add: add_item_def add_item_tx_def update_item_def update_item_tx_def delete_item_def
      delete_item_tx_def add_items_batch_def add_items_batch_tx_def apply_global_discount_def
      apply_global_discount_tx_def transaction_def)

theorem draft_only_mutations_witness:
  "get_quote (example_db ''confirmed'') 0 = Some (example_quote ''confirmed'')
   \<and> status (example_quote ''confirmed'') \<noteq> ''draft''
   \<and> add_item (example_db ''confirmed'') 0 (example_item (Some 10000) (Some 5000) None)
        = (Inl (InvalidState AddingItems), example_db ''confirmed'')
   \<and> apply_global_discount (example_db ''confirmed'') 0 (9 / 10) None
        = (Inl (InvalidState ApplyingDiscount), example_db ''confirmed'')"
proof -
  have g: "get_quote (example_db ''confirmed'') 0 = Some (example_quote ''confirmed'')"
    by (simp add: get_quote_def example_db_def example_quote_def)
  have s: "status (example_quote ''confirmed'') \<noteq> ''draft''"
    by (simp add: example_quote_def)
  from draft_only_mutations[OF g s] g s show ?thesis by blast
qed

section \<open>The price of one item\<close>










section \<open>The global discount\<close>



lemma set_global_discount_fields [simp]:
  "versions (set_global_discount d qid rate remark) = versions d"
  "next_uuid (set_global_discount d qid rate remark) = next_uuid d"
  "products (set_global_discount d qid rate remark) = products d"
  "prices (set_global_discount d qid rate remark) = prices d"
  by (simp_all add: set_global_discount_def)

lemma items_set_global_discount:
  "items (set_global_discount d qid rate remark)
     = map (\<lambda>i. if item_quote_id i = qid then i\<lparr>final_price := original_price i * rate\<rparr> else i) (items d)"
  by (simp add: set_global_discount_def)

lemma quotes_set_global_discount:
  "quotes (set_global_discount d qid rate remark)
     = update_first (\<lambda>x. quote_id x = qid)
         (\<lambda>x. x\<lparr>global_discount_rate := rate,
                 global_discount_remark := (if truthy remark then remark else global_discount_remark x)\<rparr>)
         (quotes d)"
  by (simp add: set_global_discount_def)

lemma get_quote_set_global_discount:
  "get_quote (set_global_discount d qid rate remark) qid =
     map_option (\<lambda>x. x\<lparr>global_discount_rate := rate,
                        global_discount_remark := (if truthy remark then remark else global_discount_remark x)\<rparr>)
       (get_quote d qid)"
  by (simp add: get_quote_def quotes_set_global_discount find_update_first)



lemma quotes_recalculate_total:
  "quotes (recalculate_total d qid) =
     update_first (\<lambda>q. quote_id q = qid)
       (\<lambda>q. q\<lparr>total_original_amount := sum_list (map original_price (quote_items d qid)),
               total_amount := sum_list (map final_price (quote_items d qid))\<rparr>) (quotes d)"
  by (simp add: recalculate_total_def Let_def)















section \<open>Sort orders\<close>

lemma sql_max_Max: "xs \<noteq> [] \<Longrightarrow> sql_max xs = Some (Max (set xs))"
proof (induction xs)
  case Nil
  then show ?case by simp
next
  case (Cons x xs)
  show ?case
  proof (cases "xs = []")
    case True
    then show ?thesis by simp
  next
    case False
    with Cons have "sql_max xs = Some (Max (set xs))" by simp
    with False show ?thesis by (simp add: max_def)
  qed
qed














section \<open>What each method writes\<close>

lemma map_of_rates_aux:
  "map_of (map (\<lambda>q. (quote_id q, global_discount_rate q)) xs) k
     = map_option global_discount_rate (find (\<lambda>q. quote_id q = k) xs)"
  by (induction xs) auto

lemma map_of_rates: "map_of (rates d) k = map_option global_discount_rate (get_quote d k)"
  by (simp add: rates_def get_quote_def map_of_rates_aux)

lemma rates_update_first:
  "(\<And>x. quote_id (f x) = quote_id x \<and> global_discount_rate (f x) = global_discount_rate x) \<Longrightarrow>
   map (\<lambda>q. (quote_id q, global_discount_rate q)) (update_first P f xs)
     = map (\<lambda>q. (quote_id q, global_discount_rate q)) xs"
  by (induction xs) auto

lemma ids_update_first:
  "(\<And>x. quote_id (f x) = quote_id x) \<Longrightarrow> map quote_id (update_first P f xs) = map quote_id xs"
  by (induction xs) auto

lemma rates_recalculate_total [simp]: "rates (recalculate_total d qid) = rates d"
  by (simp add: rates_def quotes_recalculate_total rates_update_first)

lemma rates_items_upd [simp]: "rates (d\<lparr>items := xs\<rparr>) = rates d"
  and rates_versions_upd [simp]: "rates (d\<lparr>versions := vs\<rparr>) = rates d"
  and rates_next_upd [simp]: "rates (d\<lparr>next_uuid := n\<rparr>) = rates d"
  by (simp_all add: rates_def)

lemma max_version_frame: "versions a = versions b \<Longrightarrow> max_version a t = max_version b t"
  by (simp add: max_version_def quote_versions_def)

lemma snapshot_and_return_effect:
  assumes "snapshot_and_return d qid ct x = Inr (y, d')"
  shows "y = x \<and> items d' = items d \<and> quotes d' = quotes d \<and> next_uuid d' = next_uuid d
         \<and> products d' = products d \<and> prices d' = prices d \<and> get_quote d qid \<noteq> None
         \<and> (\<exists>v. versions d' = versions d @ [v] \<and> version_quote_id v = qid
                 \<and> version_number v = max_version d qid + 1)"
  using snapshot_and_return_Inr[OF assms] by auto

lemma rates_cong: "quotes a = quotes b \<Longrightarrow> rates a = rates b"
  by (simp add: rates_def)

lemma add_item_effect:
  assumes "add_item d qid data = (Inr it, d')"
  shows "rates d' = rates d \<and> map quote_id (quotes d') = map quote_id (quotes d)
     \<and> items d' = items d @ [it] \<and> next_uuid d' = Suc (next_uuid d)
     \<and> item_quote_id it = qid
     \<and> (\<exists>r. map_of (rates d) qid = Some r \<and> final_price it = original_price it * r)
     \<and> (\<exists>v. versions d' = versions d @ [v] \<and> version_quote_id v = qid
             \<and> version_number v = max_version d qid + 1)"
proof -
  from assms obtain q prd price where
    q: "get_quote d qid = Some q" and
    it: "it = new_item (next_uuid d) qid prd data
                (calculate_item_price prd price data (global_discount_rate q)) (max_sort_order d qid + 1)" and
    s: "snapshot_and_return (recalculate_total (insert_item d it) qid) qid ''add_item'' it = Inr (it, d')"
    by (auto simp: add_item_def add_item_tx_def transaction_def Let_def
        split: option.splits if_splits sum.splits dest: snapshot_and_return_Inr(1))
  note e = snapshot_and_return_effect[OF s]
  have 1: "rates d' = rates d"
    using e rates_cong[of d' "recalculate_total (insert_item d it) qid"]
    by (simp add: insert_item_def)
  have 2: "map quote_id (quotes d') = map quote_id (quotes d)"
    using e by (simp add: quotes_recalculate_total ids_update_first insert_item_def)
  have 3: "items d' = items d @ [it]" "next_uuid d' = Suc (next_uuid d)"
    using e by (simp_all add: insert_item_def)
  have 4: "item_quote_id it = qid" by (simp add: it new_item_def)
  have 5: "\<exists>r. map_of (rates d) qid = Some r \<and> final_price it = original_price it * r"
    by (simp add: map_of_rates q it new_item_def calculate_item_price_def Let_def)
  have 6: "\<exists>v. versions d' = versions d @ [v] \<and> version_quote_id v = qid
             \<and> version_number v = max_version d qid + 1"
    using e max_version_frame[of "recalculate_total (insert_item d it) qid" d qid]
    by (simp add: insert_item_def)
  from 1 2 3 4 5 6 show ?thesis by simp
qed


lemma apply_item_patch_keeps:
  "apply_item_patch u i = Inr i' \<Longrightarrow>
     item_quote_id i' = item_quote_id i \<and> item_id i' = item_id i
     \<and> original_price i' = original_price i \<and> final_price i' = final_price i"
  by (auto simp: apply_item_patch_def split: if_splits)

lemma reprice_result:
  "reprice d q i = Inr i' \<Longrightarrow>
     item_quote_id i' = item_quote_id i \<and> item_id i' = item_id i
     \<and> (final_price i' = original_price i' * global_discount_rate q
         \<or> (original_price i' = original_price i \<and> final_price i' = final_price i))"
  by (auto simp: reprice_def calculate_item_price_def Let_def split: option.splits if_splits)

lemma find_Some_set: "find P xs = Some x \<Longrightarrow> x \<in> set xs \<and> P x"
  by (induction xs) (auto split: if_splits)

lemma update_item_effect:
  assumes "update_item d qid iid patch = (Inr it, d')"
  shows "rates d' = rates d \<and> map quote_id (quotes d') = map quote_id (quotes d)
     \<and> items d' = update_first (\<lambda>i. item_id i = iid \<and> item_quote_id i = qid) (\<lambda>_. it) (items d)
     \<and> next_uuid d' = next_uuid d \<and> item_quote_id it = qid
     \<and> (\<exists>r. map_of (rates d) qid = Some r
           \<and> (final_price it = original_price it * r
               \<or> (\<exists>j\<in>set (items d). item_quote_id j = qid \<and> original_price it = original_price j
                      \<and> final_price it = final_price j)))
     \<and> (\<exists>v. versions d' = versions d @ [v] \<and> version_quote_id v = qid
             \<and> version_number v = max_version d qid + 1)"
proof -
  let ?P = "\<lambda>i. item_id i = iid \<and> item_quote_id i = qid"
  from assms obtain q item item1 where
    q: "get_quote d qid = Some q" and
    f: "get_item d qid iid = Some item" and
    p: "apply_item_patch patch item = Inr item1" and
    r: "(if touches_price patch then reprice d q item1 else Inr item1) = Inr it" and
    s: "snapshot_and_return (recalculate_total (d\<lparr>items := update_first ?P (\<lambda>_. it) (items d)\<rparr>) qid)
          qid ''update_item'' it = Inr (it, d')"
    by (auto simp: update_item_def update_item_tx_def transaction_def Let_def
        split: option.splits if_splits sum.splits dest: snapshot_and_return_Inr(1))
  let ?d2 = "recalculate_total (d\<lparr>items := update_first ?P (\<lambda>_. it) (items d)\<rparr>) qid"
  note e = snapshot_and_return_effect[OF s]
  from find_Some_set[OF f[unfolded get_item_def]] have m: "item \<in> set (items d)" "item_quote_id item = qid"
    by simp_all
  note k = apply_item_patch_keeps[OF p]
  have it: "item_quote_id it = qid
     \<and> (final_price it = original_price it * global_discount_rate q
         \<or> (original_price it = original_price item \<and> final_price it = final_price item))"
  proof (cases "touches_price patch")
    case True
    with r have "reprice d q item1 = Inr it" by simp
    from reprice_result[OF this] k m show ?thesis by auto
  next
    case False
    with r have "it = item1" by simp
    with k m show ?thesis by simp
  qed
  have 1: "rates d' = rates d" using e rates_cong[of d' ?d2] by simp
  have 2: "map quote_id (quotes d') = map quote_id (quotes d)"
    using e by (simp add: quotes_recalculate_total ids_update_first)
  have 3: "items d' = update_first ?P (\<lambda>_. it) (items d)" "next_uuid d' = next_uuid d"
    using e by simp_all
  have 5: "\<exists>r. map_of (rates d) qid = Some r
           \<and> (final_price it = original_price it * r
               \<or> (\<exists>j\<in>set (items d). item_quote_id j = qid \<and> original_price it = original_price j
                      \<and> final_price it = final_price j))"
    using it m by (auto simp: map_of_rates q)
  have 6: "\<exists>v. versions d' = versions d @ [v] \<and> version_quote_id v = qid
             \<and> version_number v = max_version d qid + 1"
    using e max_version_frame[of ?d2 d qid] by simp
  from 1 2 3 it 5 6 show ?thesis by simp
qed

lemma delete_item_effect:
  assumes "delete_item d qid iid = (Inr b, d')"
  shows "rates d' = rates d \<and> map quote_id (quotes d') = map quote_id (quotes d)
     \<and> items d' = delete_first (\<lambda>i. item_id i = iid \<and> item_quote_id i = qid) (items d)
     \<and> next_uuid d' = next_uuid d
     \<and> (\<exists>v. versions d' = versions d @ [v] \<and> version_quote_id v = qid
             \<and> version_number v = max_version d qid + 1)"
proof -
  let ?P = "\<lambda>i. item_id i = iid \<and> item_quote_id i = qid"
  let ?d2 = "recalculate_total (d\<lparr>items := delete_first ?P (items d)\<rparr>) qid"
  from assms have s: "snapshot_and_return ?d2 qid ''delete_item'' True = Inr (b, d')"
    by (auto simp: delete_item_def delete_item_tx_def transaction_def Let_def
        split: option.splits if_splits sum.splits)
  note e = snapshot_and_return_effect[OF s]
  have 1: "rates d' = rates d" using e rates_cong[of d' ?d2] by simp
  have 2: "map quote_id (quotes d') = map quote_id (quotes d)"
    using e by (simp add: quotes_recalculate_total ids_update_first)
  have 6: "\<exists>v. versions d' = versions d @ [v] \<and> version_quote_id v = qid
             \<and> version_number v = max_version d qid + 1"
    using e max_version_frame[of ?d2 d qid] by simp
  from 1 2 6 e show ?thesis by simp
qed

lemma insert_item_fields [simp]:
  "quotes (insert_item d i) = quotes d"
  "versions (insert_item d i) = versions d"
  "products (insert_item d i) = products d"
  "prices (insert_item d i) = prices d"
  "items (insert_item d i) = items d @ [i]"
  "next_uuid (insert_item d i) = Suc (next_uuid d)"
  by (simp_all add: insert_item_def)

lemma get_product_insert_item [simp]: "get_product (insert_item d i) c = get_product d c"
  by (simp add: get_product_def)

lemma get_price_insert_item [simp]: "get_price (insert_item d i) c r = get_price d c r"
  by (simp add: get_price_def)

lemma batch_loop_frame:
  "batch_loop qid rate xs (d, cur, res) = (d1, cur1, res1) \<Longrightarrow>
     quotes d1 = quotes d \<and> versions d1 = versions d \<and> next_uuid d \<le> next_uuid d1
     \<and> (\<exists>new. items d1 = items d @ new
           \<and> list_all (\<lambda>i. item_quote_id i = qid \<and> final_price i = original_price i * rate) new)"
proof (induction xs arbitrary: d cur res)
  case Nil
  then show ?case by simp
next
  case (Cons x xs)
  show ?case
  proof (cases "get_product d (req_product_code x)")
    case None
    with Cons.prems Cons.IH show ?thesis by simp
  next
    case (Some prd)
    show ?thesis
    proof (cases "get_price d (req_product_code x) (req_region x)")
      case None
      with Some Cons.prems Cons.IH show ?thesis by simp
    next
      case (Some price)
      let ?it = "new_item (next_uuid d) qid prd x (calculate_item_price prd price x rate) (cur + 1)"
      from Some \<open>get_product d (req_product_code x) = Some prd\<close> Cons.prems
      have "batch_loop qid rate xs (insert_item d ?it, cur + 1, res\<lparr>success_items := success_items res @ [?it]\<rparr>)
              = (d1, cur1, res1)"
        by (simp add: Let_def)
      from Cons.IH[OF this] obtain new where
        a: "quotes d1 = quotes d" "versions d1 = versions d" "Suc (next_uuid d) \<le> next_uuid d1"
        and b: "items d1 = (items d @ [?it]) @ new"
        and c: "list_all (\<lambda>i. item_quote_id i = qid \<and> final_price i = original_price i * rate) new"
        by auto
      have "item_quote_id ?it = qid \<and> final_price ?it = original_price ?it * rate"
        by (simp add: new_item_def calculate_item_price_def Let_def)
      with c have "list_all (\<lambda>i. item_quote_id i = qid \<and> final_price i = original_price i * rate) (?it # new)"
        by simp
      with a b show ?thesis by (intro conjI exI[of _ "?it # new"]) simp_all
    qed
  qed
qed

lemma add_items_batch_effect:
  assumes "add_items_batch d qid datas = (Inr res, d')"
  shows "rates d' = rates d \<and> map quote_id (quotes d') = map quote_id (quotes d)
     \<and> next_uuid d \<le> next_uuid d'
     \<and> (\<exists>r new. map_of (rates d) qid = Some r \<and> items d' = items d @ new
           \<and> list_all (\<lambda>i. item_quote_id i = qid \<and> final_price i = original_price i * r) new)
     \<and> (\<exists>v. versions d' = versions d @ [v] \<and> version_quote_id v = qid
             \<and> version_number v = max_version d qid + 1)"
proof -
  from assms obtain q d1 cur1 res1 where
    q: "get_quote d qid = Some q" and
    l: "batch_loop qid (global_discount_rate q) datas
          (d, max_sort_order d qid, \<lparr>success_items = [], failed_items = []\<rparr>) = (d1, cur1, res1)" and
    s: "snapshot_and_return (recalculate_total d1 qid) qid ''add_item'' res1 = Inr (res, d')"
    by (auto simp: add_items_batch_def add_items_batch_tx_def transaction_def Let_def
        split: option.splits if_splits sum.splits prod.splits)
  note e = snapshot_and_return_effect[OF s]
  from batch_loop_frame[OF l] obtain new where
    a: "quotes d1 = quotes d" "versions d1 = versions d" "next_uuid d \<le> next_uuid d1"
    and b: "items d1 = items d @ new"
    and c: "list_all (\<lambda>i. item_quote_id i = qid \<and> final_price i = original_price i * global_discount_rate q) new"
    by auto
  have 1: "rates d' = rates d"
    using e rates_cong[of d' "recalculate_total d1 qid"] rates_cong[OF a(1)] by simp
  have 2: "map quote_id (quotes d') = map quote_id (quotes d)"
    using e a by (simp add: quotes_recalculate_total ids_update_first)
  have 3: "next_uuid d \<le> next_uuid d'" using e a by simp
  have 4: "\<exists>r new. map_of (rates d) qid = Some r \<and> items d' = items d @ new
           \<and> list_all (\<lambda>i. item_quote_id i = qid \<and> final_price i = original_price i * r) new"
    using e b c by (intro exI[of _ "global_discount_rate q"] exI[of _ new]) (simp add: map_of_rates q)
  have 6: "\<exists>v. versions d' = versions d @ [v] \<and> version_quote_id v = qid
             \<and> version_number v = max_version d qid + 1"
    using e max_version_frame[of "recalculate_total d1 qid" d qid] a by simp
  from 1 2 3 4 6 show ?thesis by simp
qed


lemma set_sort_key_items: "set (sort_key f xs) = set xs"
  by simp

lemma clone_quote_effect:
  assumes "clone_quote d qid cust proj cands = (Inr x, d')"
  shows "\<exists>r. map_of (rates d) qid = Some r
     \<and> rates d' = rates d @ [(next_uuid d, r)]
     \<and> map quote_id (quotes d') = map quote_id (quotes d) @ [next_uuid d]
     \<and> items d' = items d @ clone_items (next_uuid d) (Suc (next_uuid d)) 1
                               (sort_key sort_order (quote_items d qid))
     \<and> next_uuid d < next_uuid d'
     \<and> (\<exists>v. versions d' = versions d @ [v] \<and> version_quote_id v = next_uuid d
             \<and> version_number v = max_version d (next_uuid d) + 1)"
proof -
  define nq where "nq = next_uuid d"
  define its where "its = clone_items nq (Suc nq) 1 (sort_key sort_order (quote_items d qid))"
  from assms obtain src qno where
    q: "get_quote d qid = Some src" and
    s: "snapshot_and_return
          (recalculate_total
             (d\<lparr>quotes := quotes d @ [cloned_sheet nq qno src cust proj],
                items := items d @ its,
                next_uuid := Suc nq + length (sort_key sort_order (quote_items d qid))\<rparr>) nq)
          nq ''clone'' nq = Inr (x, d')"
    unfolding nq_def its_def
    by (auto simp: clone_quote_def clone_quote_tx_def transaction_def Let_def
        split: option.splits if_splits sum.splits)
  define d1 where "d1 = d\<lparr>quotes := quotes d @ [cloned_sheet nq qno src cust proj],
                items := items d @ its,
                next_uuid := Suc nq + length (sort_key sort_order (quote_items d qid))\<rparr>"
  from s have s': "snapshot_and_return (recalculate_total d1 nq) nq ''clone'' nq = Inr (x, d')"
    unfolding d1_def .
  note e = snapshot_and_return_effect[OF s']
  have f: "quotes d1 = quotes d @ [cloned_sheet nq qno src cust proj]" "items d1 = items d @ its"
    "next_uuid d1 = Suc nq + length (sort_key sort_order (quote_items d qid))" "versions d1 = versions d"
    by (simp_all add: d1_def)
  have r1: "rates d1 = rates d @ [(nq, global_discount_rate src)]"
    by (simp add: rates_def f cloned_sheet_def)
  have 1: "rates d' = rates d @ [(nq, global_discount_rate src)]"
    using e rates_cong[of d' "recalculate_total d1 nq"] r1 by simp
  have 2: "map quote_id (quotes d') = map quote_id (quotes d) @ [nq]"
    using e f by (simp add: quotes_recalculate_total ids_update_first cloned_sheet_def)
  have 3: "items d' = items d @ its" "next_uuid d < next_uuid d'"
    using e f by (simp_all add: nq_def)
  have 6: "\<exists>v. versions d' = versions d @ [v] \<and> version_quote_id v = nq
             \<and> version_number v = max_version d nq + 1"
    using e max_version_frame[of "recalculate_total d1 nq" d nq] f by simp
  have 0: "map_of (rates d) qid = Some (global_discount_rate src)"
    by (simp add: map_of_rates q)
  from 0 1 2 3 6 show ?thesis unfolding nq_def its_def by simp
qed

lemma create_quote_effect:
  assumes "create_quote d data cands = (Inr x, d')"
  shows "rates d' = rates d @ [(next_uuid d, 1)]
     \<and> map quote_id (quotes d') = map quote_id (quotes d) @ [next_uuid d]
     \<and> items d' = items d \<and> next_uuid d' = Suc (next_uuid d)
     \<and> (\<exists>v. versions d' = versions d @ [v] \<and> version_quote_id v = next_uuid d
             \<and> version_number v = max_version d (next_uuid d) + 1)"
proof -
  from assms obtain qno where
    s: "snapshot_and_return (d\<lparr>quotes := quotes d @ [draft_sheet (next_uuid d) qno data],
                                next_uuid := Suc (next_uuid d)\<rparr>)
          (next_uuid d) ''create'' (next_uuid d) = Inr (x, d')"
    by (auto simp: create_quote_def create_quote_tx_def transaction_def Let_def
        split: option.splits if_splits sum.splits)
  define d1 where "d1 = d\<lparr>quotes := quotes d @ [draft_sheet (next_uuid d) qno data],
                                next_uuid := Suc (next_uuid d)\<rparr>"
  from s have s': "snapshot_and_return d1 (next_uuid d) ''create'' (next_uuid d) = Inr (x, d')"
    unfolding d1_def .
  note e = snapshot_and_return_effect[OF s']
  have f: "quotes d1 = quotes d @ [draft_sheet (next_uuid d) qno data]" "items d1 = items d"
    "next_uuid d1 = Suc (next_uuid d)" "versions d1 = versions d"
    by (simp_all add: d1_def)
  have 1: "rates d' = rates d @ [(next_uuid d, 1)]"
    using e rates_cong[of d' d1] by (simp add: rates_def f draft_sheet_def)
  have 2: "map quote_id (quotes d') = map quote_id (quotes d) @ [next_uuid d]"
    using e f by (simp add: draft_sheet_def)
  have 6: "\<exists>v. versions d' = versions d @ [v] \<and> version_quote_id v = next_uuid d
             \<and> version_number v = max_version d (next_uuid d) + 1"
    using e max_version_frame[of d1 d "next_uuid d"] f by simp
  from 1 2 6 e f show ?thesis by simp
qed

lemma apply_quote_patch_keeps:
  "apply_quote_patch u q = Inr q' \<Longrightarrow>
     quote_id q' = quote_id q \<and> global_discount_rate q' = global_discount_rate q"
  by (auto simp: apply_quote_patch_def split: if_splits)

lemma rates_update_first_found:
  "find P xs = Some q \<Longrightarrow> quote_id q' = quote_id q \<Longrightarrow> global_discount_rate q' = global_discount_rate q \<Longrightarrow>
   map (\<lambda>q. (quote_id q, global_discount_rate q)) (update_first P (\<lambda>_. q') xs)
     = map (\<lambda>q. (quote_id q, global_discount_rate q)) xs"
  by (induction xs) (auto split: if_splits)

lemma update_quote_effect:
  assumes "update_quote d qid data = (Inr x, d')"
  shows "rates d' = rates d \<and> map quote_id (quotes d') = map quote_id (quotes d)
     \<and> items d' = items d \<and> next_uuid d' = next_uuid d
     \<and> (\<exists>v. versions d' = versions d @ [v] \<and> version_quote_id v = qid
             \<and> version_number v = max_version d qid + 1)"
proof -
  from assms obtain q q' where
    q: "get_quote d qid = Some q" and
    p: "apply_quote_patch data q = Inr q'" and
    s: "snapshot_and_return (d\<lparr>quotes := update_first (\<lambda>x. quote_id x = qid) (\<lambda>_. q') (quotes d)\<rparr>)
          qid ''update'' () = Inr (x, d')"
    by (auto simp: update_quote_def update_quote_tx_def transaction_def Let_def
        split: option.splits if_splits sum.splits)
  define d1 where "d1 = d\<lparr>quotes := update_first (\<lambda>x. quote_id x = qid) (\<lambda>_. q') (quotes d)\<rparr>"
  from s have s': "snapshot_and_return d1 qid ''update'' () = Inr (x, d')"
    unfolding d1_def .
  note e = snapshot_and_return_effect[OF s']
  note k = apply_quote_patch_keeps[OF p]
  have f: "quotes d1 = update_first (\<lambda>x. quote_id x = qid) (\<lambda>_. q') (quotes d)" "items d1 = items d"
    "next_uuid d1 = next_uuid d" "versions d1 = versions d"
    by (simp_all add: d1_def)
  have 1: "rates d' = rates d"
    using e rates_cong[of d' d1] k q
    by (simp add: rates_def f get_quote_def rates_update_first_found)
  have 2: "map quote_id (quotes d') = map quote_id (quotes d)"
    using 1 by (simp add: rates_def map_eq_conv) (metis (mono_tags, lifting) fst_conv list.map_comp comp_def map_eq_conv)
  have 6: "\<exists>v. versions d' = versions d @ [v] \<and> version_quote_id v = qid
             \<and> version_number v = max_version d qid + 1"
    using e max_version_frame[of d1 d qid] f by simp
  from 1 2 6 e f show ?thesis by simp
qed

lemma delete_quote_effect:
  assumes "delete_quote d qid = (Inr x, d')"
  shows "rates d' = rates d \<and> map quote_id (quotes d') = map quote_id (quotes d)
     \<and> items d' = items d \<and> next_uuid d' = next_uuid d \<and> versions d' = versions d"
proof -
  from assms have d': "d' = d\<lparr>quotes := update_first (\<lambda>x. quote_id x = qid) (\<lambda>x. x\<lparr>status := ''deleted''\<rparr>) (quotes d)\<rparr>"
    by (auto simp: delete_quote_def delete_quote_tx_def transaction_def split: option.splits)
  show ?thesis
    by (simp add: d' rates_def rates_update_first ids_update_first)
qed

lemma get_quote_other:
  "k \<noteq> qid \<Longrightarrow> (\<And>x. quote_id (f x) = quote_id x) \<Longrightarrow>
   find (\<lambda>q. quote_id q = k) (update_first (\<lambda>q. quote_id q = qid) f xs) = find (\<lambda>q. quote_id q = k) xs"
  by (rule find_update_first_other) auto

lemma apply_global_discount_effect:
  assumes "apply_global_discount d qid rate remark = (Inr x, d')"
  shows "(\<forall>k. map_of (rates d') k = (if k = qid then Some rate else map_of (rates d) k))
     \<and> map quote_id (quotes d') = map quote_id (quotes d)
     \<and> items d' = map (\<lambda>i. if item_quote_id i = qid then i\<lparr>final_price := original_price i * rate\<rparr> else i) (items d)
     \<and> next_uuid d' = next_uuid d
     \<and> (\<exists>v. versions d' = versions d @ [v] \<and> version_quote_id v = qid
             \<and> version_number v = max_version d qid + 1)"
proof -
  let ?d2 = "recalculate_total (set_global_discount d qid rate remark) qid"
  from assms obtain q where
    q: "get_quote d qid = Some q" and
    s: "snapshot_and_return ?d2 qid ''apply_discount'' () = Inr (x, d')"
    by (auto simp: apply_global_discount_def apply_global_discount_tx_def transaction_def Let_def
        split: option.splits if_splits sum.splits)
  note e = snapshot_and_return_effect[OF s]
  have g: "\<And>k. get_quote d' k = get_quote ?d2 k" using e by (simp add: get_quote_def)
  have qd: "quotes d' = quotes ?d2" using e by simp
  have 1: "\<forall>k. map_of (rates d') k = (if k = qid then Some rate else map_of (rates d) k)"
  proof
    fix k
    show "map_of (rates d') k = (if k = qid then Some rate else map_of (rates d) k)"
    proof (cases "k = qid")
      case True
      then show ?thesis
        by (simp add: map_of_rates g get_quote_recalculate_total get_quote_set_global_discount q)
    next
      case False
      then show ?thesis
        by (simp add: map_of_rates get_quote_def qd quotes_recalculate_total quotes_set_global_discount
            get_quote_other)
    qed
  qed
  have 2: "map quote_id (quotes d') = map quote_id (quotes d)"
    using e by (simp add: quotes_recalculate_total quotes_set_global_discount ids_update_first)
  have 3: "items d' = map (\<lambda>i. if item_quote_id i = qid then i\<lparr>final_price := original_price i * rate\<rparr> else i) (items d)"
    "next_uuid d' = next_uuid d"
    using e by (simp_all add: items_set_global_discount)
  have 6: "\<exists>v. versions d' = versions d @ [v] \<and> version_quote_id v = qid
             \<and> version_number v = max_version d qid + 1"
    using e max_version_frame[of ?d2 d qid] by simp
  from 1 2 3 6 show ?thesis by simp
qed










section \<open>Final prices\<close>












lemma exec_fail: "exec d op = (Some e, d') \<Longrightarrow> d' = d"
  by (cases op)
    (auto simp: outcome_def transaction_def create_quote_def update_quote_def delete_quote_def
      add_item_def update_item_def delete_item_def add_items_batch_def clone_quote_def
      apply_global_discount_def split: sum.splits prod.splits)











section \<open>The version ledger\<close>

lemma Max_upt_int: "Max (set (map int [1..<Suc (Suc n)])) = int (Suc n)"
proof (rule Max_eqI)
  show "finite (set (map int [1..<Suc (Suc n)]))" by simp
  show "\<And>y. y \<in> set (map int [1..<Suc (Suc n)]) \<Longrightarrow> y \<le> int (Suc n)" by auto
  show "int (Suc n) \<in> set (map int [1..<Suc (Suc n)])" by auto
qed

lemma or_zero_sql_max_upt: "or_zero (sql_max (map int [1..<Suc n])) = int n"
proof (cases n)
  case 0
  then show ?thesis by (simp add: or_zero_def)
next
  case (Suc m)
  have "map int [1..<Suc (Suc m)] \<noteq> []" by simp
  from sql_max_Max[OF this] show ?thesis
    unfolding Suc Max_upt_int by (simp add: or_zero_def)
qed

lemma max_version_ledger:
  assumes "ledger_ok d"
  shows "max_version d qid = int (length (quote_versions d qid))"
proof -
  from assms have "map version_number (quote_versions d qid)
      = map int [1..<Suc (length (quote_versions d qid))]"
    unfolding ledger_ok_def by blast
  then have "max_version d qid = or_zero (sql_max (map int [1..<Suc (length (quote_versions d qid))]))"
    unfolding max_version_def by (simp only:)
  then show ?thesis by (simp only: or_zero_sql_max_upt)
qed

lemma ledger_append:
  assumes "ledger_ok d" and "versions d' = versions d @ [v]"
    and "version_number v = max_version d (version_quote_id v) + 1"
  shows "ledger_ok d'"
  unfolding ledger_ok_def
proof
  fix qid
  from assms(1) have l: "map version_number (quote_versions d qid)
      = map int [1..<Suc (length (quote_versions d qid))]"
    by (simp add: ledger_ok_def)
  show "map version_number (quote_versions d' qid) = map int [1..<Suc (length (quote_versions d' qid))]"
  proof (cases "version_quote_id v = qid")
    case True
    then have q: "quote_versions d' qid = quote_versions d qid @ [v]"
      by (simp add: quote_versions_def assms(2))
    from assms(3) True max_version_ledger[OF assms(1), of qid]
    have "version_number v = int (length (quote_versions d qid)) + 1" by simp
    with l show ?thesis unfolding q by simp
  next
    case False
    then have "quote_versions d' qid = quote_versions d qid"
      by (simp add: quote_versions_def assms(2))
    with l show ?thesis by simp
  qed
qed

lemma exec_versions:
  assumes "exec d op = (None, d')"
  shows "if soft_delete op then versions d' = versions d
         else (\<exists>v. versions d' = versions d @ [v] \<and> version_quote_id v = target d op
                  \<and> version_number v = max_version d (target d op) + 1)"
proof (cases op)
  case (CreateQuote data cands)
  with assms obtain x where "create_quote d data cands = (Inr x, d')"
    by (auto dest!: outcome_None)
  from create_quote_effect[OF this] CreateQuote show ?thesis by simp
next
  case (UpdateQuote qid data)
  with assms obtain x where "update_quote d qid data = (Inr x, d')"
    by (auto dest!: outcome_None)
  from update_quote_effect[OF this] UpdateQuote show ?thesis by simp
next
  case (DeleteQuote qid)
  with assms obtain x where "delete_quote d qid = (Inr x, d')"
    by (auto dest!: outcome_None)
  from delete_quote_effect[OF this] DeleteQuote show ?thesis by simp
next
  case (AddItem qid data)
  with assms obtain x where "add_item d qid data = (Inr x, d')"
    by (auto dest!: outcome_None)
  from add_item_effect[OF this] AddItem show ?thesis by simp
next
  case (UpdateItem qid iid data)
  with assms obtain x where "update_item d qid iid data = (Inr x, d')"
    by (auto dest!: outcome_None)
  from update_item_effect[OF this] UpdateItem show ?thesis by simp
next
  case (DeleteItem qid iid)
  with assms obtain x where "delete_item d qid iid = (Inr x, d')"
    by (auto dest!: outcome_None)
  from delete_item_effect[OF this] DeleteItem show ?thesis by simp
next
  case (AddItemsBatch qid datas)
  with assms obtain x where "add_items_batch d qid datas = (Inr x, d')"
    by (auto dest!: outcome_None)
  from add_items_batch_effect[OF this] AddItemsBatch show ?thesis by simp
next
  case (CloneQuote qid cust proj cands)
  with assms obtain x where "clone_quote d qid cust proj cands = (Inr x, d')"
    by (auto dest!: outcome_None)
  from clone_quote_effect[OF this] CloneQuote show ?thesis by auto
next
  case (ApplyGlobalDiscount qid rate remark)
  with assms obtain x where "apply_global_discount d qid rate remark = (Inr x, d')"
    by (auto dest!: outcome_None)
  from apply_global_discount_effect[OF this] ApplyGlobalDiscount show ?thesis by simp
qed

lemma ledger_ok_cong: "versions a = versions b \<Longrightarrow> ledger_ok a = ledger_ok b"
  by (simp add: ledger_ok_def quote_versions_def)

lemma exec_ledger:
  assumes "ledger_ok d"
  shows "ledger_ok (snd (exec d op))"
proof (cases "fst (exec d op)")
  case None
  then have e: "exec d op = (None, snd (exec d op))" by (simp add: prod_eq_iff)
  show ?thesis
  proof (cases "soft_delete op")
    case True
    with exec_versions[OF e] have "versions (snd (exec d op)) = versions d" by simp
    from ledger_ok_cong[OF this] assms show ?thesis by simp
  next
    case False
    with exec_versions[OF e] obtain v where
      "versions (snd (exec d op)) = versions d @ [v]"
      "version_number v = max_version d (version_quote_id v) + 1" by auto
    with assms show ?thesis by (rule ledger_append)
  qed
next
  case (Some e)
  then have "exec d op = (Some e, snd (exec d op))" by (simp add: prod_eq_iff)
  from exec_fail[OF this] assms show ?thesis by simp
qed

lemma exec_all_ledger: "ledger_ok d \<Longrightarrow> ledger_ok (exec_all d ops)"
  by (induction ops arbitrary: d) (simp_all add: exec_ledger)

lemma empty_db_ledger: "ledger_ok (empty_db ps prs)"
  by (simp add: ledger_ok_def empty_db_def quote_versions_def)


text \<open>
  C3, as amended. In every state the service reaches from an empty database, the version
  numbers of every quote are 1, 2, 3, ... without gaps, in the order they were written. Every
  committed call other than the soft delete writes exactly one version record, for the quote
  it wrote to, numbered one above the number of records that quote had. The soft delete
  writes no version record.
\<close>

theorem version_ledger:
  assumes "d = exec_all (empty_db ps prs) ops"
  shows "(\<forall>qid. map version_number (quote_versions d qid)
                = map int [1..<Suc (length (quote_versions d qid))])
       \<and> (exec d op = (None, d') \<longrightarrow>
            (if soft_delete op then versions d' = versions d
             else (\<exists>v. versions d' = versions d @ [v] \<and> version_quote_id v = target d op
                      \<and> version_number v = int (length (quote_versions d (target d op))) + 1)))"
proof -
  have l: "ledger_ok d" unfolding assms by (rule exec_all_ledger[OF empty_db_ledger])
  then have 1: "\<forall>qid. map version_number (quote_versions d qid)
                = map int [1..<Suc (length (quote_versions d qid))]"
    by (simp add: ledger_ok_def)
  have 2: "exec d op = (None, d') \<longrightarrow>
            (if soft_delete op then versions d' = versions d
             else (\<exists>v. versions d' = versions d @ [v] \<and> version_quote_id v = target d op
                      \<and> version_number v = int (length (quote_versions d (target d op))) + 1))"
  proof
    assume "exec d op = (None, d')"
    from exec_versions[OF this] max_version_ledger[OF l, of "target d op"]
    show "if soft_delete op then versions d' = versions d
             else (\<exists>v. versions d' = versions d @ [v] \<and> version_quote_id v = target d op
                      \<and> version_number v = int (length (quote_versions d (target d op))) + 1)"
      by (cases "soft_delete op") simp_all
  qed
  from 1 2 show ?thesis by simp
qed

lemma created_db_versions:
  "map (\<lambda>v. (version_quote_id v, version_number v)) (versions created_db) = [(0, 1)]"
  unfolding created_db_def by code_simp

theorem version_ledger_witness:
  "fst (exec created_db (ApplyGlobalDiscount 0 (9 / 10) None)) = None
   \<and> map version_number (versions (snd (exec created_db (ApplyGlobalDiscount 0 (9 / 10) None)))) = [1, 2]
   \<and> fst (exec created_db (DeleteQuote 0)) = None
   \<and> map version_number (versions (snd (exec created_db (DeleteQuote 0)))) = [1]"
proof -
  let ?a = "ApplyGlobalDiscount 0 (9 / 10) None"
  have c: "created_db = exec_all (empty_db [example_llm] [example_price])
                  [CreateQuote example_create [''QT202401010001'']]"
    by (rule created_db_def)
  have fa: "fst (exec created_db ?a) = None" unfolding created_db_def by code_simp
  have fd: "fst (exec created_db (DeleteQuote 0)) = None" unfolding created_db_def by code_simp
  have ea: "exec created_db ?a = (None, snd (exec created_db ?a))" using fa by (simp add: prod_eq_iff)
  have ed: "exec created_db (DeleteQuote 0) = (None, snd (exec created_db (DeleteQuote 0)))"
    using fd by (simp add: prod_eq_iff)
  have v: "map version_number (versions created_db) = [1]"
      "length (quote_versions created_db 0) = 1"
    using created_db_versions by (auto simp: quote_versions_def)
  from version_ledger[OF c, of ?a "snd (exec created_db ?a)"] ea
  obtain w where "versions (snd (exec created_db ?a)) = versions created_db @ [w]"
    "version_number w = int (length (quote_versions created_db 0)) + 1" by auto
  with v have 1: "map version_number (versions (snd (exec created_db ?a))) = [1, 2]" by simp
  from version_ledger[OF c, of "DeleteQuote 0" "snd (exec created_db (DeleteQuote 0))"] ed
  have "versions (snd (exec created_db (DeleteQuote 0))) = versions created_db" by simp
  with v have 2: "map version_number (versions (snd (exec created_db (DeleteQuote 0)))) = [1]" by simp
  from fa fd 1 2 show ?thesis by simp
qed


text \<open>C3 as stated fails for the soft delete: it commits the change of the status and the
  ledger keeps its length.\<close>

theorem soft_delete_counterexample:
  "fst (exec created_db (DeleteQuote 0)) = None
   \<and> map status (quotes created_db) = [''draft'']
   \<and> map status (quotes (snd (exec created_db (DeleteQuote 0)))) = [''deleted'']
   \<and> length (versions (snd (exec created_db (DeleteQuote 0)))) = length (versions created_db)"
  unfolding created_db_def by code_simp

end
